theory Spec2Isabelle
  imports Main
begin

section \<open>Strings\<close>

text \<open>
  A JavaScript string is modelled as a \<open>string\<close> (a list of characters). The
  two string operations the page applies are \<open>s.toUpperCase()\<close> and
  \<open>s.replace(/\D/g, '')\<close>. \<open>toUpperCase\<close> is modelled on ASCII text: the
  letters a..z are mapped to A..Z (bit 5 of the character code cleared) and every other
  character is kept. \<open>\D\<close> matches every character that is not one of 0..9, so the
  replacement keeps exactly the decimal digits, in order.
\<close>

fun upperChar :: "char \<Rightarrow> char" where
  "upperChar (Char b0 b1 b2 b3 b4 b5 b6 b7) =
     (let n = (of_char (Char b0 b1 b2 b3 b4 b5 b6 b7) :: nat)
      in if 97 \<le> n \<and> n \<le> 122 then Char b0 b1 b2 b3 b4 False b6 b7
         else Char b0 b1 b2 b3 b4 b5 b6 b7)"

definition toUpperCase :: "string \<Rightarrow> string" where
  "toUpperCase s = map upperChar s"

definition isDigit :: "char \<Rightarrow> bool" where
  "isDigit c = (48 \<le> (of_char c :: nat) \<and> (of_char c :: nat) \<le> 57)"

definition stripNonDigits :: "string \<Rightarrow> string" where
  "stripNonDigits s = filter isDigit s"

section \<open>The page: CreditVerificationForm\<close>

text \<open>
  \<open>FormData\<close> is an object with thirteen string-valued keys and \<open>FileUploads\<close>
  one with four keys holding \<open>File | null\<close>. Both are updated through a computed key
  (\<open>{ ...prev, [field]: value }\<close>), so they are modelled as total functions from the
  key to the value; the keys are the constructors of \<open>field\<close> and \<open>slot\<close>, under
  the names the source gives them.
\<close>

datatype field = fullName | aadharNumber | panNumber | dateOfBirth | annualIncome
  | employmentStatus | monthlyDebtPayments | mobileNumber | emailAddress
  | streetAddress | city | state | pinCode

datatype slot = aadharCard | panCard | salarySlips | bankStatement

fun slotKey :: "slot \<Rightarrow> string" where
  "slotKey aadharCard = ''aadharCard''"
| "slotKey panCard = ''panCard''"
| "slotKey salarySlips = ''salarySlips''"
| "slotKey bankStatement = ''bankStatement''"

text \<open>A browser \<open>File\<close>: the page reads its name, the drop zone its size in bytes.\<close>

record File =
  name :: string
  size_bytes :: nat

text \<open>The argument of \<open>toast({ title, description, variant })\<close>.\<close>

record toastProps =
  title :: string
  description :: string
  variant :: "string option"

text \<open>
  What a handler does beyond updating the React state is recorded, in order, in the
  page's \<open>effects\<close>: a notification shown, the timer of the simulated API call
  (\<open>new Promise(resolve => setTimeout(resolve, ms))\<close>), and each call of
  \<open>setIsSubmitting\<close>, which enables or disables the submit control.
\<close>

datatype effect = Toast toastProps | SimulatedCall nat | SetIsSubmitting bool

record page =
  formData :: "field \<Rightarrow> string"
  files :: "slot \<Rightarrow> File option"
  currentSpeechField :: "field option"
  isSubmitting :: bool
  effects :: "effect list"

definition emptyFormData :: "field \<Rightarrow> string" where
  "emptyFormData = (\<lambda>_. [])"

definition emptyFiles :: "slot \<Rightarrow> File option" where
  "emptyFiles = (\<lambda>_. None)"

definition initialPage :: page where
  "initialPage = \<lparr>formData = emptyFormData, files = emptyFiles,
     currentSpeechField = None, isSubmitting = False, effects = []\<rparr>"

definition toast :: "toastProps \<Rightarrow> page \<Rightarrow> page" where
  "toast t s = s\<lparr>effects := effects s @ [Toast t]\<rparr>"

definition setIsSubmitting :: "bool \<Rightarrow> page \<Rightarrow> page" where
  "setIsSubmitting b s = s\<lparr>isSubmitting := b, effects := effects s @ [SetIsSubmitting b]\<rparr>"

definition handleInputChange :: "field \<Rightarrow> string \<Rightarrow> page \<Rightarrow> page" where
  "handleInputChange fld v s = s\<lparr>formData := (formData s)(fld := v)\<rparr>"

definition handleFileUpload :: "slot \<Rightarrow> File \<Rightarrow> page \<Rightarrow> page" where
  "handleFileUpload fld f s =
     toast \<lparr>title = ''File uploaded successfully'',
            description = name f @ '' has been uploaded for '' @ slotKey fld @ ''.'',
            variant = None\<rparr>
       (s\<lparr>files := (files s)(fld := Some f)\<rparr>)"

definition handleSpeechResult :: "field \<Rightarrow> string \<Rightarrow> page \<Rightarrow> page" where
  "handleSpeechResult fld result s = (handleInputChange fld result s)\<lparr>currentSpeechField := None\<rparr>"

subsection \<open>The handlers wired to each field\<close>

text \<open>
  \<open>onChange\<close> is the handler of the field's input element (for \<open>employmentStatus\<close>
  the \<open>onValueChange\<close> of its select); its argument is \<open>e.target.value\<close>. Only the
  \<open>panNumber\<close> input transforms the value.
\<close>

fun onChange :: "field \<Rightarrow> string \<Rightarrow> page \<Rightarrow> page" where
  "onChange panNumber v = handleInputChange panNumber (toUpperCase v)"
| "onChange fld v = handleInputChange fld v"

text \<open>
  \<open>onResult\<close> is the callback the page hands to the field's SpeechRecognition
  element; \<open>employmentStatus\<close> is rendered without one.
\<close>

fun onResult :: "field \<Rightarrow> (string \<Rightarrow> page \<Rightarrow> page) option" where
  "onResult fullName = Some (\<lambda>result. handleSpeechResult fullName result)"
| "onResult dateOfBirth = Some (\<lambda>result. handleSpeechResult dateOfBirth result)"
| "onResult aadharNumber = Some (\<lambda>result. handleSpeechResult aadharNumber (stripNonDigits result))"
| "onResult panNumber = Some (\<lambda>result. handleSpeechResult panNumber (toUpperCase result))"
| "onResult annualIncome = Some (\<lambda>result. handleSpeechResult annualIncome (stripNonDigits result))"
| "onResult monthlyDebtPayments =
     Some (\<lambda>result. handleSpeechResult monthlyDebtPayments (stripNonDigits result))"
| "onResult employmentStatus = None"
| "onResult mobileNumber = Some (\<lambda>result. handleSpeechResult mobileNumber (stripNonDigits result))"
| "onResult emailAddress = Some (\<lambda>result. handleSpeechResult emailAddress result)"
| "onResult streetAddress = Some (\<lambda>result. handleSpeechResult streetAddress result)"
| "onResult city = Some (\<lambda>result. handleSpeechResult city result)"
| "onResult state = Some (\<lambda>result. handleSpeechResult state result)"
| "onResult pinCode = Some (\<lambda>result. handleSpeechResult pinCode (stripNonDigits result))"

text \<open>
  The fields whose \<open>onResult\<close> strips the non-digits from the transcript, and whether
  typing \<open>v\<close> into a field of the initial page reads back as something other than
  \<open>v\<close>.
\<close>

definition digitFields :: "field list" where
  "digitFields = [aadharNumber, annualIncome, monthlyDebtPayments, mobileNumber, pinCode]"

definition changedByTyping :: "string \<Rightarrow> field \<Rightarrow> bool" where
  "changedByTyping v fld = (formData (onChange fld v initialPage) fld \<noteq> v)"

text \<open>
  \<open>isActive={currentSpeechField === 'f'}\<close> and
  \<open>onToggle={() => setCurrentSpeechField(currentSpeechField === 'f' ? null : 'f')}\<close>.
\<close>

definition isActive :: "field \<Rightarrow> page \<Rightarrow> bool" where
  "isActive fld s = (currentSpeechField s = Some fld)"

definition onToggle :: "field \<Rightarrow> page \<Rightarrow> page" where
  "onToggle fld s =
     s\<lparr>currentSpeechField := (if currentSpeechField s = Some fld then None else Some fld)\<rparr>"

subsection \<open>Validation and submission\<close>

definition requiredFields :: "field list" where
  "requiredFields = [fullName, aadharNumber, panNumber, dateOfBirth, annualIncome,
     employmentStatus, monthlyDebtPayments, mobileNumber, emailAddress,
     streetAddress, city, state, pinCode]"

definition requiredFiles :: "slot list" where
  "requiredFiles = [aadharCard, panCard, salarySlips, bankStatement]"

definition missingFieldsToast :: toastProps where
  "missingFieldsToast = \<lparr>title = ''Missing Required Fields'',
     description = ''Please fill in all required fields.'',
     variant = Some ''destructive''\<rparr>"

definition missingDocumentsToast :: toastProps where
  "missingDocumentsToast = \<lparr>title = ''Missing Required Documents'',
     description = ''Please upload all required documents.'',
     variant = Some ''destructive''\<rparr>"

definition submittedToast :: toastProps where
  "submittedToast = \<lparr>title = ''Application Submitted Successfully'',
     description = ''Your credit verification application has been submitted for review.'',
     variant = None\<rparr>"

definition submissionFailedToast :: toastProps where
  "submissionFailedToast = \<lparr>title = ''Submission Failed'',
     description = ''There was an error submitting your application. Please try again.'',
     variant = Some ''destructive''\<rparr>"

text \<open>
  \<open>!formData[field]\<close> is true exactly for the empty string and \<open>!files[file]\<close>
  exactly for \<open>null\<close>. \<open>validateForm\<close> returns its boolean together with the page
  after the notification it may have shown.
\<close>

definition missingFields :: "page \<Rightarrow> field list" where
  "missingFields s = filter (\<lambda>fld. formData s fld = []) requiredFields"

definition missingFiles :: "page \<Rightarrow> slot list" where
  "missingFiles s = filter (\<lambda>fld. files s fld = None) requiredFiles"

definition validateForm :: "page \<Rightarrow> bool \<times> page" where
  "validateForm s =
     (if length (missingFields s) > 0 then (False, toast missingFieldsToast s)
      else if length (missingFiles s) > 0 then (False, toast missingDocumentsToast s)
      else (True, s))"

text \<open>
  \<open>handleSubmit\<close> is an async function with one \<open>await\<close>. \<open>handleSubmit_begin\<close>
  is the part that runs when the submit event arrives: it returns the page and whether the
  function is now suspended at the \<open>await\<close>. \<open>handleSubmit_resume\<close> is the rest of
  the \<open>try\<close> block with its \<open>catch\<close> and \<open>finally\<close>, run when the awaited
  promise settles. The promise of the source always fulfils; the way it settles is a
  parameter here so that the \<open>catch\<close> branch is part of the model. \<open>handleSubmit\<close> is
  one whole run of the handler with no other event in between.
\<close>

datatype settled = Fulfilled | Rejected

definition handleSubmit_begin :: "page \<Rightarrow> page \<times> bool" where
  "handleSubmit_begin s =
     (case validateForm s of
        (False, s1) \<Rightarrow> (s1, False)
      | (True, s1) \<Rightarrow>
          (let s2 = setIsSubmitting True s1
           in (s2\<lparr>effects := effects s2 @ [SimulatedCall 2000]\<rparr>, True)))"

definition handleSubmit_resume :: "settled \<Rightarrow> page \<Rightarrow> page" where
  "handleSubmit_resume r s =
     setIsSubmitting False
       (case r of
          Fulfilled \<Rightarrow> (toast submittedToast s)\<lparr>formData := emptyFormData, files := emptyFiles\<rparr>
        | Rejected \<Rightarrow> toast submissionFailedToast s)"

definition handleSubmit :: "settled \<Rightarrow> page \<Rightarrow> page" where
  "handleSubmit r s =
     (case handleSubmit_begin s of
        (s1, False) \<Rightarrow> s1
      | (s1, True) \<Rightarrow> handleSubmit_resume r s1)"

text \<open>A page with every field and every document present, for the examples below.\<close>

definition filledPage :: page where
  "filledPage = \<lparr>formData = (\<lambda>_. ''x''),
     files = (\<lambda>_. Some \<lparr>name = ''doc.pdf'', size_bytes = 1536\<rparr>),
     currentSpeechField = None, isSubmitting = False, effects = []\<rparr>"

section \<open>The drop zone: FileUpload\<close>

text \<open>
  The component's own state is the drag-over flag and the value of the hidden file input
  it holds through \<open>fileInputRef\<close> (\<open>None\<close> while the ref is \<open>null\<close>). The held
  file is a prop, owned by the page. A handler returns the component's state together with
  the files it passed to the \<open>onFileSelect\<close> callback, in order.
\<close>

record dropZone =
  fileInputValue :: "string option"
  isDragOver :: bool

definition handleFileSelect :: "File \<Rightarrow> File list" where
  "handleFileSelect f = [f]"

text \<open>\<open>e.target.files?.[0]\<close>: the file list of the input may be \<open>null\<close> or empty.\<close>

definition handleInputChange_FileUpload :: "File list option \<Rightarrow> dropZone \<Rightarrow> dropZone \<times> File list" where
  "handleInputChange_FileUpload fs z =
     (case fs of
        None \<Rightarrow> (z, [])
      | Some [] \<Rightarrow> (z, [])
      | Some (f # rest) \<Rightarrow> (z, handleFileSelect f))"

definition handleDragOver :: "dropZone \<Rightarrow> dropZone \<times> File list" where
  "handleDragOver z = (z\<lparr>isDragOver := True\<rparr>, [])"

definition handleDragLeave :: "dropZone \<Rightarrow> dropZone \<times> File list" where
  "handleDragLeave z = (z\<lparr>isDragOver := False\<rparr>, [])"

definition handleDrop :: "File list \<Rightarrow> dropZone \<Rightarrow> dropZone \<times> File list" where
  "handleDrop fs z =
     (let z1 = z\<lparr>isDragOver := False\<rparr>
      in if length fs > 0 then (z1, handleFileSelect (hd fs)) else (z1, []))"

definition handleRemoveFile :: "dropZone \<Rightarrow> dropZone \<times> File list" where
  "handleRemoveFile z =
     (case fileInputValue z of
        Some v \<Rightarrow> (z\<lparr>fileInputValue := Some []\<rparr>, [])
      | None \<Rightarrow> (z, []))"

subsection \<open>formatFileSize\<close>

text \<open>
  \<open>bytes\<close> is the size of a \<open>File\<close>: a whole number below \<open>2^53\<close>.
  \<^item> \<open>Math.floor(Math.log(bytes) / Math.log(k))\<close> is modelled by the exact integer
    logarithm \<open>log1024\<close>. The source computes it in floating point;
    the two agree unless the quotient of the rounded logarithms falls on the other side
    of a whole number than the exact one.
  \<^item> \<open>bytes / Math.pow(k, i)\<close> divides by a power of two, which is exact in binary
    floating point, and \<open>toFixed(2)\<close> is specified on the exact value: the integer
    \<open>n\<close> with \<open>n / 100\<close> nearest to it, the larger one on a tie. \<open>hundredths\<close> is
    that \<open>n\<close>.
  \<^item> \<open>parseFloat\<close> followed by the conversion to a string for \<open>+\<close> prints
    \<open>n / 100\<close> with its trailing zeros dropped: \<open>showHundredths\<close>.
  \<^item> \<open>sizes[i]\<close> beyond the end of the array is \<open>undefined\<close>, which \<open>+\<close> prints as
    the text \<open>undefined\<close>.
\<close>

definition sizes :: "string list" where
  "sizes = [''Bytes'', ''KB'', ''MB'', ''GB'']"

fun log1024 :: "nat \<Rightarrow> nat" where
  "log1024 n = (if n < 1024 then 0 else Suc (log1024 (n div 1024)))"

declare log1024.simps [simp del]

definition hundredths :: "nat \<Rightarrow> nat \<Rightarrow> nat" where
  "hundredths bytes d = (2 * 100 * bytes + d) div (2 * d)"

fun digits :: "nat \<Rightarrow> string" where
  "digits n = (if n < 10 then [''0123456789'' ! n]
               else digits (n div 10) @ [''0123456789'' ! (n mod 10)])"

declare digits.simps [simp del]

definition showHundredths :: "nat \<Rightarrow> string" where
  "showHundredths n =
     digits (n div 100) @
       (if n mod 100 = 0 then []
        else if n mod 10 = 0 then ''.'' @ digits (n mod 100 div 10)
        else ''.'' @ digits (n mod 100 div 10) @ digits (n mod 10))"

text \<open>The number that a string of decimal digits denotes, read from the left.\<close>

definition decimalValue :: "string \<Rightarrow> nat" where
  "decimalValue cs = fold (\<lambda>c acc. 10 * acc + (of_char c - 48)) cs 0"

definition formatFileSize :: "nat \<Rightarrow> string" where
  "formatFileSize bytes =
     (if bytes = 0 then ''0 Bytes''
      else
        (let k = 1024; i = log1024 bytes
         in showHundredths (hundredths bytes (k ^ i)) @ '' '' @
              (if i < length sizes then sizes ! i else ''undefined'')))"

subsection \<open>The drop zones on the page\<close>

text \<open>
  The page renders one FileUpload per slot, with
  \<open>onFileSelect={(file) => handleFileUpload('slot', file)}\<close> and
  \<open>currentFile={files.slot}\<close>. \<open>deliver\<close> stores the component's new state and runs
  the page's callback on every file the handler passed to \<open>onFileSelect\<close>.
\<close>

record form =
  pageState :: page
  dropZones :: "slot \<Rightarrow> dropZone"

definition initialForm :: form where
  "initialForm = \<lparr>pageState = initialPage,
     dropZones = (\<lambda>_. \<lparr>fileInputValue = Some [], isDragOver = False\<rparr>)\<rparr>"

definition onFileSelect :: "slot \<Rightarrow> File \<Rightarrow> page \<Rightarrow> page" where
  "onFileSelect d f = handleFileUpload d f"

definition deliver :: "slot \<Rightarrow> dropZone \<times> File list \<Rightarrow> form \<Rightarrow> form" where
  "deliver d r fm =
     fm\<lparr>dropZones := (dropZones fm)(d := fst r),
        pageState := fold (onFileSelect d) (snd r) (pageState fm)\<rparr>"

definition dropOn :: "slot \<Rightarrow> File list \<Rightarrow> form \<Rightarrow> form" where
  "dropOn d fs fm = deliver d (handleDrop fs (dropZones fm d)) fm"

definition pressRemove :: "slot \<Rightarrow> form \<Rightarrow> form" where
  "pressRemove d fm = deliver d (handleRemoveFile (dropZones fm d)) fm"

definition currentFile :: "slot \<Rightarrow> form \<Rightarrow> File option" where
  "currentFile d fm = files (pageState fm) d"

definition storedFiles :: "form \<Rightarrow> File list" where
  "storedFiles fm = concat (map (\<lambda>d. case currentFile d fm of None \<Rightarrow> [] | Some f \<Rightarrow> [f]) requiredFiles)"

section \<open>The voice adapter: SpeechRecognition\<close>

text \<open>
  One instance of the component. Its React state is \<open>isListening\<close> and
  \<open>isSupported\<close>; its refs are \<open>recognitionRef\<close> and \<open>timeoutRef\<close>.

  The handlers of the recognition object are created inside the first \<open>useEffect\<close>,
  whose dependencies are \<open>[onResult, toast]\<close>. They are closures over the
  \<open>isListening\<close> constant of the render whose effect created them, and the state
  setter does not change a constant that a closure already holds. The recognition object
  therefore carries \<open>handlers_isListening\<close>, the value its handlers see, and a pending
  timeout carries \<open>timer_isListening\<close>, the value its callback sees.

  \<open>started\<close> follows the Web Speech API: \<open>start()\<close> on an object that was started
  and has had no end or error event since throws, and \<open>stop()\<close> on an object that is
  not started is ignored.
\<close>

record recognition =
  started :: bool
  handlers_isListening :: bool

record timer =
  timerId :: nat
  delay :: nat
  timer_isListening :: bool

datatype adapterEffect =
    RecognitionStart | RecognitionStop | RecognitionAbort
  | ResultDelivered string | AdapterToast toastProps

record adapter =
  hasSpeechRecognition :: bool
  isActiveProp :: bool
  isListening :: bool
  isSupported :: bool
  recognitionRef :: "recognition option"
  timeoutRef :: "nat option"
  timers :: "timer list"
  nextTimerId :: nat
  calls :: "adapterEffect list"

definition adapterToast :: "toastProps \<Rightarrow> adapter \<Rightarrow> adapter" where
  "adapterToast t a = a\<lparr>calls := calls a @ [AdapterToast t]\<rparr>"

definition clearTimeout :: "nat \<Rightarrow> adapter \<Rightarrow> adapter" where
  "clearTimeout tid a = a\<lparr>timers := filter (\<lambda>t. timerId t \<noteq> tid) (timers a)\<rparr>"

definition clearTimeoutRef :: "adapter \<Rightarrow> adapter" where
  "clearTimeoutRef a = (case timeoutRef a of None \<Rightarrow> a | Some tid \<Rightarrow> clearTimeout tid a)"

definition recognitionStop :: "adapter \<Rightarrow> adapter" where
  "recognitionStop a = a\<lparr>calls := calls a @ [RecognitionStop]\<rparr>"

definition recognitionAbort :: "adapter \<Rightarrow> adapter" where
  "recognitionAbort a = a\<lparr>calls := calls a @ [RecognitionAbort]\<rparr>"

definition startFailedToast :: toastProps where
  "startFailedToast = \<lparr>title = ''Speech Recognition Error'',
     description = ''Failed to start speech recognition. Please try again.'',
     variant = Some ''destructive''\<rparr>"

text \<open>\<open>try { recognitionRef.current.start() } catch (error) { toast(...) }\<close>\<close>

definition recognitionStart :: "recognition \<Rightarrow> adapter \<Rightarrow> adapter" where
  "recognitionStart r a =
     (if started r then adapterToast startFailedToast a
      else a\<lparr>recognitionRef := Some (r\<lparr>started := True\<rparr>),
             calls := calls a @ [RecognitionStart]\<rparr>)"

subsection \<open>The two effects\<close>

text \<open>
  The body of the first effect, run in a render whose \<open>isListening\<close> is the
  adapter's current one: it creates the recognition object and installs the handlers.
\<close>

definition effect1 :: "adapter \<Rightarrow> adapter" where
  "effect1 a =
     (if hasSpeechRecognition a
      then a\<lparr>isSupported := True,
             recognitionRef := Some \<lparr>started = False, handlers_isListening = isListening a\<rparr>\<rparr>
      else a)"

text \<open>The cleanup of the first effect; it is also what runs when the component unmounts.\<close>

definition effect1_cleanup :: "adapter \<Rightarrow> adapter" where
  "effect1_cleanup a =
     clearTimeoutRef (case recognitionRef a of None \<Rightarrow> a | Some r \<Rightarrow> recognitionAbort a)"

text \<open>
  The body of the second effect. \<open>supported\<close> is the \<open>isSupported\<close> of the render
  the effect belongs to, which in the first render is still \<open>false\<close>.
\<close>

definition effect2 :: "bool \<Rightarrow> adapter \<Rightarrow> adapter" where
  "effect2 supported a =
     (case recognitionRef a of
        None \<Rightarrow> a
      | Some r \<Rightarrow>
          if isActiveProp a \<and> supported then recognitionStart r a
          else if \<not> isActiveProp a then (recognitionStop a)\<lparr>isListening := False\<rparr>
          else a)"

text \<open>
  Mounting: the first render and its effects, then the render that \<open>setIsSupported(true)\<close>
  causes, in which only the second effect has a changed dependency. Timer ids start at 1:
  a browser's \<open>setTimeout\<close> returns a positive id, so \<open>if (timeoutRef.current)\<close>
  tests whether a timeout was ever set.
\<close>

definition mount :: "bool \<Rightarrow> bool \<Rightarrow> adapter" where
  "mount hasApi active =
     (let a0 = \<lparr>hasSpeechRecognition = hasApi, isActiveProp = active, isListening = False,
                isSupported = False, recognitionRef = None, timeoutRef = None, timers = [],
                nextTimerId = 1, calls = []\<rparr>;
          a1 = effect2 False (effect1 a0)
      in if isSupported a1 then effect2 True a1 else a1)"

text \<open>
  A render with new props. The first effect is cleaned up and run again when
  \<open>onResult\<close> is a new function (the page passes a new arrow function in every
  render); the second runs when \<open>isActive\<close> has changed.
\<close>

definition rerender :: "bool \<Rightarrow> bool \<Rightarrow> adapter \<Rightarrow> adapter" where
  "rerender active onResultChanged a =
     (let a1 = a\<lparr>isActiveProp := active\<rparr>;
          a2 = (if onResultChanged then effect1 (effect1_cleanup a1) else a1)
      in if active \<noteq> isActiveProp a then effect2 (isSupported a) a2 else a2)"

definition unmount :: "adapter \<Rightarrow> adapter" where
  "unmount a = effect1_cleanup a"

subsection \<open>The handlers of the recognition object and the timeout callback\<close>

definition onstart :: "adapter \<Rightarrow> adapter" where
  "onstart a =
     (case recognitionRef a of
        None \<Rightarrow> a
      | Some r \<Rightarrow>
          a\<lparr>isListening := True,
            timeoutRef := Some (nextTimerId a),
            timers := timers a @
              [\<lparr>timerId = nextTimerId a, delay = 10000,
                timer_isListening = handlers_isListening r\<rparr>],
            nextTimerId := Suc (nextTimerId a)\<rparr>)"

text \<open>
  The callback of the timeout set in \<open>onstart\<close>:
  \<open>if (recognitionRef.current && isListening) recognitionRef.current.stop()\<close>.
\<close>

definition timeoutCallback :: "timer \<Rightarrow> adapter \<Rightarrow> adapter" where
  "timeoutCallback t a =
     (if recognitionRef a \<noteq> None \<and> timer_isListening t then recognitionStop a else a)"

definition timerFired :: "nat \<Rightarrow> adapter \<Rightarrow> adapter" where
  "timerFired tid a =
     (case filter (\<lambda>t. timerId t = tid) (timers a) of
        [] \<Rightarrow> a
      | t # _ \<Rightarrow> timeoutCallback t (clearTimeout tid a))"

definition onresult :: "string \<Rightarrow> adapter \<Rightarrow> adapter" where
  "onresult transcript a =
     (case recognitionRef a of
        None \<Rightarrow> a
      | Some r \<Rightarrow>
          adapterToast \<lparr>title = ''Speech recognized'',
                        description = ''Captured: \"'' @ transcript @ ''\"'',
                        variant = None\<rparr>
            (a\<lparr>calls := calls a @ [ResultDelivered transcript], isListening := False\<rparr>))"

definition errorMessage :: "string \<Rightarrow> string" where
  "errorMessage code =
     (if code = ''no-speech'' then ''No speech detected. Please try again.''
      else if code = ''audio-capture'' then ''Microphone not available. Please check permissions.''
      else if code = ''not-allowed''
        then ''Microphone access denied. Please allow microphone permissions.''
      else if code = ''network'' then ''Network error. Please check your connection.''
      else ''Speech recognition failed. Please try again.'')"

definition onerror :: "string \<Rightarrow> adapter \<Rightarrow> adapter" where
  "onerror code a =
     (case recognitionRef a of
        None \<Rightarrow> a
      | Some r \<Rightarrow>
          adapterToast \<lparr>title = ''Speech Recognition Error'', description = errorMessage code,
                        variant = Some ''destructive''\<rparr>
            (a\<lparr>isListening := False, recognitionRef := Some (r\<lparr>started := False\<rparr>)\<rparr>))"

definition onend :: "adapter \<Rightarrow> adapter" where
  "onend a =
     (case recognitionRef a of
        None \<Rightarrow> a
      | Some r \<Rightarrow>
          clearTimeoutRef (a\<lparr>isListening := False, recognitionRef := Some (r\<lparr>started := False\<rparr>)\<rparr>))"

text \<open>
  A listening session as the page starts it: the adapter is mounted inactive in a browser
  that has the API, the page makes it the dictation target (a render with
  \<open>isActive = true\<close> and a new \<open>onResult\<close>), and the browser reports the start.
\<close>

definition listeningSession :: adapter where
  "listeningSession = onstart (rerender True True (mount True False))"

section \<open>Validation and submission\<close>

lemma missingFields_nonempty:
  "(length (missingFields s) > 0) = (\<exists>fld. formData s fld = [])"
proof -
  have all: "set requiredFields = UNIV"
  proof -
    have "fld \<in> set requiredFields" for fld
      by (cases fld) (simp_all add: requiredFields_def)
    then show ?thesis by blast
  qed
  have "(length (missingFields s) > 0) = (\<exists>fld \<in> set requiredFields. formData s fld = [])"
    by (simp add: missingFields_def filter_empty_conv)
  then show ?thesis by (simp add: all)
qed

lemma missingFiles_nonempty:
  "(length (missingFiles s) > 0) = (\<exists>d. files s d = None)"
proof -
  have all: "set requiredFiles = UNIV"
  proof -
    have "d \<in> set requiredFiles" for d
      by (cases d) (simp_all add: requiredFiles_def)
    then show ?thesis by blast
  qed
  have "(length (missingFiles s) > 0) = (\<exists>d \<in> set requiredFiles. files s d = None)"
    by (simp add: missingFiles_def filter_empty_conv)
  then show ?thesis by (simp add: all)
qed

lemma validateForm_cases:
  "validateForm s =
     (if \<exists>fld. formData s fld = [] then (False, toast missingFieldsToast s)
      else if \<exists>d. files s d = None then (False, toast missingDocumentsToast s)
      else (True, s))"
  unfolding validateForm_def missingFields_nonempty missingFiles_nonempty by (rule refl)

text \<open>
  C1. If a field is the empty string or a file slot is empty, submitting is blocked:
  \<open>validateForm\<close> returns false, the handler returns before the \<open>await\<close>, and all
  the handler does is show one notification, for the fields when a field is empty and for
  the documents otherwise. The page is otherwise unchanged: no simulated call is made and
  \<open>setIsSubmitting\<close> is not called.
\<close>

theorem validation_failure_blocks_submit:
  assumes "(\<exists>fld. formData s fld = []) \<or> (\<exists>d. files s d = None)"
  shows "fst (validateForm s) = False \<and> snd (handleSubmit_begin s) = False \<and>
         handleSubmit r s =
           s\<lparr>effects := effects s @
               [Toast (if \<exists>fld. formData s fld = [] then missingFieldsToast
                       else missingDocumentsToast)]\<rparr>"
proof (cases "\<exists>fld. formData s fld = []")
  case True
  then have "validateForm s = (False, toast missingFieldsToast s)"
    by (simp only: validateForm_cases if_True)
  with True show ?thesis
    by (simp add: handleSubmit_def handleSubmit_begin_def toast_def)
next
  case False
  with assms have docs: "\<exists>d. files s d = None" by blast
  with False have "validateForm s = (False, toast missingDocumentsToast s)"
    by (simp only: validateForm_cases if_True if_False)
  with False show ?thesis
    by (simp add: handleSubmit_def handleSubmit_begin_def toast_def)
qed

theorem validation_failure_blocks_submit_witness:
  "formData (onChange fullName ''Asha'' initialPage) city = [] \<and>
   fst (validateForm (onChange fullName ''Asha'' initialPage)) = False \<and>
   snd (handleSubmit_begin (onChange fullName ''Asha'' initialPage)) = False \<and>
   isSubmitting (handleSubmit Fulfilled (onChange fullName ''Asha'' initialPage)) = False \<and>
   effects (handleSubmit Fulfilled (onChange fullName ''Asha'' initialPage)) =
     [Toast missingFieldsToast]"
proof -
  let ?s = "onChange fullName ''Asha'' initialPage"
  have e: "formData ?s city = []"
    by (simp add: initialPage_def handleInputChange_def emptyFormData_def)
  then have ex: "\<exists>fld. formData ?s fld = []" by blast
  then have h: "(\<exists>fld. formData ?s fld = []) \<or> (\<exists>d. files ?s d = None)" by blast
  have eff: "effects ?s = []" "isSubmitting ?s = False"
    by (simp_all add: initialPage_def handleInputChange_def)
  from validation_failure_blocks_submit [OF h, of Fulfilled] e ex eff
  show ?thesis by simp
qed

text \<open>
  C2. With every field non-empty and every slot holding a file, one run of the submit
  handler disables the submit control, makes the simulated call once, and then: when the
  call succeeds, shows the success notification and resets every field and every slot;
  when it throws, shows the failure notification and leaves fields and slots as they
  were. Either way the last thing it does is \<open>setIsSubmitting(false)\<close>. The second half
  of the handler does the same from whatever page it resumes in.
\<close>

theorem complete_form_submits:
  assumes "\<forall>fld. formData s fld \<noteq> []" and "\<forall>d. files s d \<noteq> None"
  shows "handleSubmit Fulfilled s =
           s\<lparr>formData := emptyFormData, files := emptyFiles, isSubmitting := False,
             effects := effects s @ [SetIsSubmitting True, SimulatedCall 2000,
                                     Toast submittedToast, SetIsSubmitting False]\<rparr> \<and>
         handleSubmit Rejected s =
           s\<lparr>isSubmitting := False,
             effects := effects s @ [SetIsSubmitting True, SimulatedCall 2000,
                                     Toast submissionFailedToast, SetIsSubmitting False]\<rparr> \<and>
         emptyFormData fld = [] \<and> emptyFiles d = None \<and>
         handleSubmit_resume Fulfilled s' =
           s'\<lparr>formData := emptyFormData, files := emptyFiles, isSubmitting := False,
              effects := effects s' @ [Toast submittedToast, SetIsSubmitting False]\<rparr> \<and>
         handleSubmit_resume Rejected s' =
           s'\<lparr>isSubmitting := False,
              effects := effects s' @ [Toast submissionFailedToast, SetIsSubmitting False]\<rparr>"
proof -
  from assms have "\<not> (\<exists>fld. formData s fld = [])" and "\<not> (\<exists>d. files s d = None)"
    by blast+
  then have "validateForm s = (True, s)"
    by (simp only: validateForm_cases if_False)
  then show ?thesis
    by (simp add: handleSubmit_def handleSubmit_begin_def handleSubmit_resume_def toast_def
        setIsSubmitting_def Let_def emptyFormData_def emptyFiles_def)
qed

theorem complete_form_submits_witness:
  "(\<forall>fld. formData filledPage fld \<noteq> []) \<and> (\<forall>d. files filledPage d \<noteq> None) \<and>
   formData (handleSubmit Fulfilled filledPage) = emptyFormData \<and>
   files (handleSubmit Fulfilled filledPage) = emptyFiles \<and>
   isSubmitting (handleSubmit Fulfilled filledPage) = False \<and>
   effects (handleSubmit Fulfilled filledPage) =
     [SetIsSubmitting True, SimulatedCall 2000, Toast submittedToast, SetIsSubmitting False] \<and>
   formData (handleSubmit Rejected filledPage) = formData filledPage \<and>
   files (handleSubmit Rejected filledPage) = files filledPage \<and>
   isSubmitting (handleSubmit Rejected filledPage) = False \<and>
   effects (handleSubmit Rejected filledPage) =
     [SetIsSubmitting True, SimulatedCall 2000, Toast submissionFailedToast, SetIsSubmitting False]"
proof -
  have a: "\<forall>fld. formData filledPage fld \<noteq> []" by (simp add: filledPage_def)
  have b: "\<forall>d. files filledPage d \<noteq> None" by (simp add: filledPage_def)
  have eff: "effects filledPage = []" by (simp add: filledPage_def)
  from complete_form_submits [OF a b] a b eff show ?thesis by simp
qed

text \<open>
  C10. When a field is empty, \<open>validateForm\<close> returns false after showing the
  missing-fields notification only, whatever the document slots hold: the result is the
  same for every content \<open>fs\<close> of the slots, so in particular when a slot is empty too.
\<close>

theorem field_check_short_circuits:
  assumes "\<exists>fld. formData s fld = []"
  shows "validateForm (s\<lparr>files := fs\<rparr>) =
           (False, s\<lparr>files := fs, effects := effects s @ [Toast missingFieldsToast]\<rparr>)"
  using assms by (simp add: validateForm_cases toast_def)

theorem field_check_short_circuits_witness:
  "formData initialPage fullName = [] \<and>
   (emptyFiles(panCard := Some \<lparr>name = ''pan.pdf'', size_bytes = 1536\<rparr>)) aadharCard = None \<and>
   validateForm
     (initialPage\<lparr>files := emptyFiles(panCard := Some \<lparr>name = ''pan.pdf'', size_bytes = 1536\<rparr>)\<rparr>) =
     (False,
      initialPage\<lparr>files := emptyFiles(panCard := Some \<lparr>name = ''pan.pdf'', size_bytes = 1536\<rparr>),
                  effects := [Toast missingFieldsToast]\<rparr>)"
proof -
  have e: "formData initialPage fullName = []"
    by (simp add: initialPage_def emptyFormData_def)
  then have ex: "\<exists>fld. formData initialPage fld = []" by blast
  have eff: "effects initialPage = []" by (simp add: initialPage_def)
  from field_check_short_circuits [OF ex] e eff show ?thesis
    by (simp add: emptyFiles_def)
qed

section \<open>Dictation target\<close>

lemma filter_isActive:
  "filter (\<lambda>fld. isActive fld s) requiredFields =
     (case currentSpeechField s of None \<Rightarrow> [] | Some fld \<Rightarrow> [fld])"
proof (cases "currentSpeechField s")
  case None
  then show ?thesis by (simp add: isActive_def)
next
  case (Some fld)
  then show ?thesis by (cases fld) (simp_all add: isActive_def requiredFields_def)
qed

text \<open>
  C4. In every page state at most one of the thirteen fields is the active dictation
  target. Pressing the microphone toggle of field \<open>a\<close> makes \<open>a\<close> the only active
  field when no field was active, leaves no field active when \<open>a\<close> was the active one,
  and makes \<open>a\<close> the only active field, so that \<open>b\<close> no longer is, when another
  field \<open>b\<close> was active.
\<close>

theorem single_dictation_target:
  "length (filter (\<lambda>fld. isActive fld s) requiredFields) \<le> 1 \<and>
   (currentSpeechField s = None \<longrightarrow> (\<forall>fld. isActive fld (onToggle a s) = (fld = a))) \<and>
   (currentSpeechField s = Some a \<longrightarrow> (\<forall>fld. \<not> isActive fld (onToggle a s))) \<and>
   (currentSpeechField s = Some b \<and> b \<noteq> a \<longrightarrow>
      (\<forall>fld. isActive fld (onToggle a s) = (fld = a)) \<and> \<not> isActive b (onToggle a s))"
proof -
  have "length (filter (\<lambda>fld. isActive fld s) requiredFields) \<le> 1"
    by (simp add: filter_isActive split: option.split)
  moreover have "currentSpeechField s = None \<longrightarrow> (\<forall>fld. isActive fld (onToggle a s) = (fld = a))"
    by (auto simp add: isActive_def onToggle_def)
  moreover have "currentSpeechField s = Some a \<longrightarrow> (\<forall>fld. \<not> isActive fld (onToggle a s))"
    by (simp add: isActive_def onToggle_def)
  moreover have "currentSpeechField s = Some b \<and> b \<noteq> a \<longrightarrow>
      (\<forall>fld. isActive fld (onToggle a s) = (fld = a)) \<and> \<not> isActive b (onToggle a s)"
    by (auto simp add: isActive_def onToggle_def)
  ultimately show ?thesis by blast
qed

theorem single_dictation_target_witness:
  "currentSpeechField initialPage = None \<and>
   currentSpeechField (onToggle city initialPage) = Some city \<and> city \<noteq> pinCode \<and>
   filter (\<lambda>fld. isActive fld (onToggle city initialPage)) requiredFields = [city] \<and>
   filter (\<lambda>fld. isActive fld (onToggle pinCode (onToggle city initialPage))) requiredFields
     = [pinCode] \<and>
   \<not> isActive city (onToggle pinCode (onToggle city initialPage)) \<and>
   currentSpeechField (onToggle city (onToggle city initialPage)) = None"
proof -
  have n: "currentSpeechField initialPage = None" by (simp add: initialPage_def)
  have h: "currentSpeechField (onToggle city initialPage) = Some city"
    by (simp add: onToggle_def initialPage_def)
  note t0 = single_dictation_target [of initialPage city city]
  note t1 = single_dictation_target [of "onToggle city initialPage" pinCode city]
  note t2 = single_dictation_target [of "onToggle city initialPage" city city]
  from t0 n have "\<forall>fld. isActive fld (onToggle city initialPage) = (fld = city)" by simp
  then have a: "filter (\<lambda>fld. isActive fld (onToggle city initialPage)) requiredFields = [city]"
    by (simp add: requiredFields_def)
  from t1 h have b: "\<not> isActive city (onToggle pinCode (onToggle city initialPage))" by simp
  from t1 h have "\<forall>fld. isActive fld (onToggle pinCode (onToggle city initialPage)) = (fld = pinCode)"
    by simp
  then have c: "filter (\<lambda>fld. isActive fld (onToggle pinCode (onToggle city initialPage)))
      requiredFields = [pinCode]"
    by (simp add: requiredFields_def)
  from t2 h have "\<forall>fld. \<not> isActive fld (onToggle city (onToggle city initialPage))" by simp
  then have d: "currentSpeechField (onToggle city (onToggle city initialPage)) = None"
    by (cases "currentSpeechField (onToggle city (onToggle city initialPage))")
       (auto simp add: isActive_def)
  from n h a b c d show ?thesis by simp
qed

section \<open>Typing and dictation\<close>

lemma upperChar_idem: "upperChar (upperChar c) = upperChar c"
  by (cases c) (auto simp add: Let_def)

lemma toUpperCase_idem: "toUpperCase (toUpperCase v) = toUpperCase v"
  by (simp add: toUpperCase_def upperChar_idem)

lemma onChange_eq:
  "onChange fld v s =
     s\<lparr>formData := (formData s)(fld := (if fld = panNumber then toUpperCase v else v))\<rparr>"
  by (cases fld) (simp_all add: handleInputChange_def)

text \<open>
  C5, as the claim states it, does not hold: typing \<open>ab-12\<close>, which has lower-case
  letters and non-digits, into each of the thirteen fields in turn reads back changed for
  \<open>panNumber\<close> only. There is one field whose setter uppercases, not two, and the
  fields whose dictation path strips non-digits store what is typed unchanged.
\<close>

theorem typed_exceptions_counterexample:
  "filter (changedByTyping ''ab-12'') requiredFields = [panNumber]"
  by (simp add: changedByTyping_def requiredFields_def handleInputChange_def initialPage_def
      toUpperCase_def)

text \<open>
  C5, amended. For every field other than \<open>panNumber\<close> and every string, setting the
  field through its input handler and reading it back yields the identical string; this
  includes the fields whose dictation path strips non-digits. The one exception is
  \<open>panNumber\<close>, which reads back as the upper-cased string. The handler changes no
  other field, and setting a field to the value just read back changes nothing.
\<close>

theorem typed_round_trip:
  "(fld \<noteq> panNumber \<longrightarrow> formData (onChange fld v s) fld = v) \<and>
   formData (onChange panNumber v s) panNumber = toUpperCase v \<and>
   (g \<noteq> fld \<longrightarrow> formData (onChange fld v s) g = formData s g) \<and>
   onChange fld (formData (onChange fld v s) fld) (onChange fld v s) = onChange fld v s"
  by (simp add: onChange_eq toUpperCase_idem del: onChange.simps)

theorem typed_round_trip_witness:
  "aadharNumber \<noteq> panNumber \<and> fullName \<noteq> aadharNumber \<and>
   formData (onChange aadharNumber ''12 ab'' initialPage) aadharNumber = ''12 ab'' \<and>
   formData (onChange aadharNumber ''12 ab'' initialPage) fullName = [] \<and>
   formData (onChange panNumber ''abcde1234f'' initialPage) panNumber = ''ABCDE1234F''"
  using typed_round_trip [of aadharNumber "''12 ab''" initialPage fullName]
    typed_round_trip [of panNumber "''abcde1234f''" initialPage fullName]
  by (simp add: toUpperCase_def initialPage_def emptyFormData_def)

text \<open>
  C6, as the claim states it, does not hold: a PAN typed in lower case is stored in upper
  case, so uppercasing is applied to manual typing as well.
\<close>

theorem typing_uppercases_pan_counterexample:
  "formData (onChange panNumber ''abcde1234f'' initialPage) panNumber = ''ABCDE1234F'' \<and>
   ''ABCDE1234F'' \<noteq> ''abcde1234f''"
  by (simp add: handleInputChange_def toUpperCase_def)

text \<open>
  C6, amended. Digit-stripping is applied on the dictation path only: the five fields of
  \<open>digitFields\<close> store the digits of a dictated transcript, and every field stores a
  typed value without digit-stripping. Uppercasing is applied to \<open>panNumber\<close> alone,
  on both paths: its typed value and its dictated transcript are stored upper-cased. Every
  other field stores the typed value and the dictated transcript unchanged.
\<close>

theorem typing_and_dictation_transforms:
  "(fld \<noteq> panNumber \<longrightarrow> formData (onChange fld v s) fld = v) \<and>
   formData (onChange panNumber v s) panNumber = toUpperCase v \<and>
   (onResult fld = Some h \<longrightarrow>
      formData (h v s) fld =
        (if fld \<in> set digitFields then stripNonDigits v
         else if fld = panNumber then toUpperCase v else v))"
  by (cases fld)
     (auto simp add: handleInputChange_def handleSpeechResult_def digitFields_def)

theorem typing_and_dictation_transforms_witness:
  "aadharNumber \<noteq> panNumber \<and>
   formData (onChange aadharNumber ''1234 5678 abcd'' initialPage) aadharNumber
     = ''1234 5678 abcd'' \<and>
   onResult aadharNumber = Some (\<lambda>result. handleSpeechResult aadharNumber (stripNonDigits result)) \<and>
   formData (handleSpeechResult aadharNumber (stripNonDigits ''1234 5678 abcd'') initialPage)
     aadharNumber = ''12345678''"
  using typing_and_dictation_transforms [of aadharNumber "''1234 5678 abcd''" initialPage
      "\<lambda>result. handleSpeechResult aadharNumber (stripNonDigits result)"]
  by (simp add: digitFields_def stripNonDigits_def isDigit_def)

section \<open>The drop zone\<close>

text \<open>
  C7. The remove handler passes nothing to \<open>onFileSelect\<close> and changes only the value
  of the component's own file input, which it clears. Pressing remove on the page
  therefore leaves the page state, and with it the file held for the slot, as it was.
\<close>

theorem remove_keeps_page_state:
  "snd (handleRemoveFile z) = [] \<and>
   fst (handleRemoveFile z) = z\<lparr>fileInputValue := map_option (\<lambda>v. []) (fileInputValue z)\<rparr> \<and>
   pageState (pressRemove d fm) = pageState fm \<and>
   currentFile d (pressRemove d fm) = currentFile d fm \<and>
   dropZones (pressRemove d fm) = (dropZones fm)(d := fst (handleRemoveFile (dropZones fm d)))"
  by (simp add: handleRemoveFile_def pressRemove_def deliver_def currentFile_def
      split: option.split)

lemma handleDrop_Cons: "handleDrop (f # rest) z = (z\<lparr>isDragOver := False\<rparr>, [f])"
  by (simp add: handleDrop_def handleFileSelect_def Let_def)

text \<open>
  C8. A drop of the files \<open>f # rest\<close> passes exactly \<open>f\<close> to \<open>onFileSelect\<close>. On
  the page this is one run of \<open>handleFileUpload\<close> for \<open>f\<close>: the slot holds \<open>f\<close>,
  the other slots are unchanged, and \<open>rest\<close> has no effect. Dropping two files on a
  slot of the initial page leaves one stored file, the first.
\<close>

theorem drop_takes_first_file:
  "snd (handleDrop (f # rest) z) = [f] \<and>
   pageState (dropOn d (f # rest) fm) = handleFileUpload d f (pageState fm) \<and>
   files (pageState (dropOn d (f # rest) fm)) = (files (pageState fm))(d := Some f) \<and>
   currentFile d (dropOn d (f # rest) fm) = Some f \<and>
   storedFiles (dropOn d [f1, f2] initialForm) = [f1]"
proof -
  have "storedFiles (dropOn d [f1, f2] initialForm) = [f1]"
    by (cases d)
       (simp_all add: storedFiles_def currentFile_def dropOn_def deliver_def handleDrop_Cons
          onFileSelect_def handleFileUpload_def toast_def initialForm_def initialPage_def
          emptyFiles_def requiredFiles_def)
  then show ?thesis
    by (simp add: dropOn_def deliver_def handleDrop_Cons onFileSelect_def handleFileUpload_def
        toast_def currentFile_def)
qed

subsection \<open>formatFileSize\<close>

lemma log1024_small: "n < 1024 \<Longrightarrow> log1024 n = 0"
  by (subst log1024.simps) simp

lemma log1024_large: "\<not> n < 1024 \<Longrightarrow> log1024 n = Suc (log1024 (n div 1024))"
  by (subst log1024.simps) simp

lemma log1024_bounds:
  "0 < n \<Longrightarrow> 1024 ^ log1024 n \<le> n \<and> n < 1024 ^ Suc (log1024 n)"
proof (induction n rule: log1024.induct)
  case (1 n)
  show ?case
  proof (cases "n < 1024")
    case True
    with "1.prems" show ?thesis by (simp add: log1024_small)
  next
    case False
    then have pos: "0 < n div 1024" by simp
    from "1.IH" [OF False pos]
    have lo: "1024 ^ log1024 (n div 1024) \<le> n div 1024"
      and hi: "n div 1024 < 1024 ^ Suc (log1024 (n div 1024))" by simp_all
    have eq: "log1024 n = Suc (log1024 (n div 1024))" using False by (rule log1024_large)
    have "1024 * 1024 ^ log1024 (n div 1024) \<le> 1024 * (n div 1024)" using lo by simp
    also have "\<dots> \<le> n" by simp
    finally have a: "1024 ^ log1024 n \<le> n" by (simp add: eq)
    from hi have "Suc (n div 1024) \<le> 1024 ^ Suc (log1024 (n div 1024))" by simp
    then have "1024 * Suc (n div 1024) \<le> 1024 * 1024 ^ Suc (log1024 (n div 1024))"
      by (simp only: mult_le_mono2)
    moreover have "n < 1024 * Suc (n div 1024)"
      by (simp add: dividend_less_times_div)
    ultimately have b: "n < 1024 ^ Suc (log1024 n)" by (simp add: eq)
    from a b show ?thesis by simp
  qed
qed

lemma log1024_less:
  assumes "0 < n" and "n < 1024 ^ m"
  shows "log1024 n < m"
proof -
  from log1024_bounds [OF assms(1)] have "(1024::nat) ^ log1024 n \<le> n" by simp
  from this assms(2) have "(1024::nat) ^ log1024 n < 1024 ^ m" by (rule le_less_trans)
  then show ?thesis by (rule power_less_imp_less_exp [rotated]) simp
qed

lemma hundredths_nearest:
  assumes "0 < d"
  shows "2 * d * hundredths bytes d \<le> 2 * 100 * bytes + d \<and>
         2 * 100 * bytes + d < 2 * d * Suc (hundredths bytes d)"
proof -
  let ?m = "2 * 100 * bytes + d"
  have "2 * d * (?m div (2 * d)) \<le> ?m" by simp
  moreover have "?m < 2 * d * Suc (?m div (2 * d))"
    using assms by (simp add: dividend_less_times_div)
  ultimately show ?thesis by (simp add: hundredths_def)
qed

lemma digit_char: "d < 10 \<Longrightarrow> of_char (''0123456789'' ! d) = (48 + d :: nat)"
proof -
  assume "d < 10"
  then have "d = 0 \<or> d = 1 \<or> d = 2 \<or> d = 3 \<or> d = 4 \<or> d = 5 \<or> d = 6 \<or> d = 7 \<or> d = 8 \<or> d = 9"
    by arith
  then show ?thesis by (elim disjE) simp_all
qed

lemma decimalValue_snoc:
  "decimalValue (cs @ [c]) = 10 * decimalValue cs + (of_char c - 48)"
  by (simp add: decimalValue_def)

text \<open>\<open>digits\<close> prints a number in decimal: its characters are digits and denote it.\<close>

lemma decimalValue_digits: "decimalValue (digits n) = n"
proof (induction n rule: digits.induct)
  case (1 n)
  show ?case
  proof (cases "n < 10")
    case True
    then have "digits n = [''0123456789'' ! n]" by (subst digits.simps) simp
    with True show ?thesis using digit_char [of n] by (simp add: decimalValue_def)
  next
    case False
    then have eq: "digits n = digits (n div 10) @ [''0123456789'' ! (n mod 10)]"
      by (subst digits.simps) simp
    have "n mod 10 < 10" by simp
    from digit_char [OF this] "1.IH" [OF False] show ?thesis
      by (simp add: eq decimalValue_snoc)
  qed
qed

lemma digits_all_digits: "\<forall>c \<in> set (digits n). isDigit c"
proof (induction n rule: digits.induct)
  case (1 n)
  show ?case
  proof (cases "n < 10")
    case True
    then have "digits n = [''0123456789'' ! n]" by (subst digits.simps) simp
    with True show ?thesis using digit_char [of n] by (simp add: isDigit_def)
  next
    case False
    then have eq: "digits n = digits (n div 10) @ [''0123456789'' ! (n mod 10)]"
      by (subst digits.simps) simp
    have "n mod 10 < 10" by simp
    from digit_char [OF this] "1.IH" [OF False] show ?thesis
      by (simp add: eq isDigit_def)
  qed
qed

text \<open>
  Below \<open>1024^4\<close> bytes the index stays inside the table of units: the unit is
  \<open>sizes ! i\<close> with \<open>1024^i \<le> bytes < 1024^(i+1)\<close>, and the number printed before
  it is the number of hundredths nearest to \<open>bytes / 1024^i\<close>, the larger on a tie.
\<close>

lemma formatFileSize_below_TB:
  assumes "0 < bytes" and "bytes < 1024 ^ 4"
  shows "log1024 bytes < length sizes \<and>
         1024 ^ log1024 bytes \<le> bytes \<and> bytes < 1024 ^ Suc (log1024 bytes) \<and>
         formatFileSize bytes =
           showHundredths (hundredths bytes (1024 ^ log1024 bytes)) @ '' '' @
             sizes ! log1024 bytes \<and>
         2 * 1024 ^ log1024 bytes * hundredths bytes (1024 ^ log1024 bytes)
           \<le> 2 * 100 * bytes + 1024 ^ log1024 bytes \<and>
         2 * 100 * bytes + 1024 ^ log1024 bytes
           < 2 * 1024 ^ log1024 bytes * Suc (hundredths bytes (1024 ^ log1024 bytes))"
proof -
  have i: "log1024 bytes < length sizes"
    using log1024_less [OF assms] by (simp add: sizes_def)
  have fmt: "formatFileSize bytes =
      showHundredths (hundredths bytes (1024 ^ log1024 bytes)) @ '' '' @ sizes ! log1024 bytes"
    using assms(1) i by (simp add: formatFileSize_def Let_def)
  have "(0::nat) < 1024 ^ log1024 bytes" by simp
  from hundredths_nearest [OF this, of bytes] log1024_bounds [OF assms(1)] i fmt
  show ?thesis by simp
qed

text \<open>
  C9. The two sizes the claim names are rendered as it says, \<open>0 Bytes\<close> and
  \<open>1.5 KB\<close>, and sizes below \<open>1024^4\<close> are rendered with one of Bytes, KB, MB, GB
  and two-decimal rounding with trailing zeros dropped (1023 bytes, 123456789 bytes and
  the last byte count below \<open>1024^4\<close> are evaluated here). From \<open>1024^4\<close> bytes on
  the claim fails: the index into the table of units is not bounded, \<open>sizes[4]\<close> is
  \<open>undefined\<close>, and a file of 2 TiB is rendered as \<open>2 undefined\<close>.
\<close>

theorem formatFileSize_terabyte_undefined:
  "formatFileSize (2 ^ 41) = ''2 undefined'' \<and>
   formatFileSize (5 * 2 ^ 40) = ''5 undefined'' \<and>
   formatFileSize (1024 ^ 4 - 1) = ''1024 GB'' \<and>
   formatFileSize 123456789 = ''117.74 MB'' \<and>
   formatFileSize 1023 = ''1023 Bytes'' \<and>
   formatFileSize 1536 = ''1.5 KB'' \<and>
   formatFileSize 0 = ''0 Bytes''"
  by (simp add: formatFileSize_def hundredths_def showHundredths_def sizes_def
      log1024.simps digits.simps)

section \<open>The watchdog of the voice adapter\<close>

lemma listeningSession_eq:
  "listeningSession =
   \<lparr>hasSpeechRecognition = True, isActiveProp = True, isListening = True, isSupported = True,
    recognitionRef = Some \<lparr>started = True, handlers_isListening = False\<rparr>,
    timeoutRef = Some 1,
    timers = [\<lparr>timerId = 1, delay = 10000, timer_isListening = False\<rparr>],
    nextTimerId = 2,
    calls = [RecognitionStop, RecognitionStop, RecognitionAbort, RecognitionStart]\<rparr>"
  by (simp add: listeningSession_def mount_def rerender_def onstart_def effect1_def effect2_def
      effect1_cleanup_def clearTimeoutRef_def recognitionStop_def recognitionAbort_def
      recognitionStart_def Let_def)

text \<open>
  The same holds for every activation from the page: when an idle, inactive adapter is
  made the dictation target, the handlers are installed in a render whose
  \<open>isListening\<close> is false, so the timeout armed by \<open>onstart\<close> requests no stop.
\<close>

lemma page_activation_watchdog:
  assumes api: "hasSpeechRecognition a" and sup: "isSupported a"
    and idle: "\<not> isListening a" and inactive: "\<not> isActiveProp a"
    and fresh: "\<forall>t \<in> set (timers a). timerId t < nextTimerId a"
  shows "isListening (onstart (rerender True True a)) \<and>
         isListening (timerFired (nextTimerId a) (onstart (rerender True True a))) \<and>
         calls (timerFired (nextTimerId a) (onstart (rerender True True a))) =
           calls (onstart (rerender True True a))"
proof -
  define c where "c = effect1_cleanup (a\<lparr>isActiveProp := True\<rparr>)"
  have c_listen: "\<not> isListening c"
    using idle by (simp add: c_def effect1_cleanup_def clearTimeoutRef_def clearTimeout_def
        recognitionAbort_def split: option.split)
  have c_next: "nextTimerId c = nextTimerId a"
    by (simp add: c_def effect1_cleanup_def clearTimeoutRef_def clearTimeout_def
        recognitionAbort_def split: option.split)
  have c_timers: "set (timers c) \<subseteq> set (timers a)"
    by (auto simp add: c_def effect1_cleanup_def clearTimeoutRef_def clearTimeout_def
        recognitionAbort_def split: option.split)
  have c_api: "hasSpeechRecognition c" "isActiveProp c"
    using api by (simp_all add: c_def effect1_cleanup_def clearTimeoutRef_def clearTimeout_def
        recognitionAbort_def split: option.split)
  define l where "l = onstart (rerender True True a)"
  have l: "l = c\<lparr>isListening := True, isSupported := True,
        recognitionRef := Some \<lparr>started = True, handlers_isListening = False\<rparr>,
        timeoutRef := Some (nextTimerId a),
        timers := timers c @
          [\<lparr>timerId = nextTimerId a, delay = 10000, timer_isListening = False\<rparr>],
        nextTimerId := Suc (nextTimerId a),
        calls := calls c @ [RecognitionStart]\<rparr>"
    using inactive sup c_listen c_api c_next
    by (simp add: l_def onstart_def rerender_def Let_def effect1_def effect2_def
        recognitionStart_def c_def [symmetric])
  have nomatch: "filter (\<lambda>t. timerId t = nextTimerId a) (timers c) = []"
  proof -
    have "timerId t \<noteq> nextTimerId a" if "t \<in> set (timers c)" for t
    proof -
      from that c_timers have "t \<in> set (timers a)" by blast
      with fresh have "timerId t < nextTimerId a" by blast
      then show ?thesis by simp
    qed
    then show ?thesis by (simp add: filter_empty_conv)
  qed
  have "timerFired (nextTimerId a) l = clearTimeout (nextTimerId a) l"
    by (simp add: l timerFired_def nomatch timeoutCallback_def)
  then have "isListening l \<and> isListening (timerFired (nextTimerId a) l) \<and>
      calls (timerFired (nextTimerId a) l) = calls l"
    by (simp add: l clearTimeout_def)
  then show ?thesis by (simp only: l_def)
qed

text \<open>
  C3. Entering the listening state does arm a timeout of 10000 ms, but its callback
  tests the \<open>isListening\<close> of the render that installed the handlers, which is
  \<open>false\<close>. In a listening session started from the page, the expiry of the timeout
  with no result received only removes the timer: no stop is requested (the calls on the
  recognition object are those made before) and the adapter is still listening.
\<close>

theorem watchdog_expiry_requests_no_stop:
  "isListening listeningSession \<and>
   timers listeningSession = [\<lparr>timerId = 1, delay = 10000, timer_isListening = False\<rparr>] \<and>
   timerFired 1 listeningSession = listeningSession\<lparr>timers := []\<rparr> \<and>
   isListening (timerFired 1 listeningSession) \<and>
   calls (timerFired 1 listeningSession) = calls listeningSession"
  by (simp add: listeningSession_eq timerFired_def timeoutCallback_def clearTimeout_def)

end
